theory Spec2Isabelle
  imports Main
begin

section \<open>ClaimCompass: the client form controller of frontend/script.js\<close>

text \<open>
  The script is event-wired DOM manipulation around one module variable,
  \<^verbatim>\<open>currentAnalysisData\<close>. The model is explicit state passing: a record
  \<open>page\<close> holds the properties of the DOM elements the script writes, the
  module variable, and two logs of what leaves the page (requests handed to
  \<^verbatim>\<open>fetch\<close>, files handed to the download anchor). Every function of the
  script is a function from page to page. An \<^verbatim>\<open>async\<close> function is cut at its
  \<^verbatim>\<open>await\<close>: the part before it and the part after it are two functions, the
  second taking what the awaited promise delivers.

  The repository holds a second copy of the script, branded for Scale AI, with
  the same functions. It differs in its message texts and button markup, has
  three sections (loading, results, error) and no welcome card, and hides the
  loading section in \<^verbatim>\<open>showResults\<close> and \<^verbatim>\<open>resetForm\<close> as well. The theory
  follows frontend/script.js.
\<close>

subsection \<open>Strings\<close>

text \<open>
  A string of the script is modelled by its UTF-8 encoding, a list of bytes:
  an ASCII character is one byte, any other code point two to four. No
  encoding of a code point is the start or the end of the encoding of another,
  so \<^verbatim>\<open>startsWith\<close>, \<^verbatim>\<open>includes\<close> and the stripping of code points from
  either end are the same on the bytes as on the script's strings.

  \<^verbatim>\<open>s.startsWith(p)\<close> and \<^verbatim>\<open>s.includes(n)\<close> (\<open>includes\<close> is a keyword of
  Isabelle, hence the suffix).
\<close>

definition startsWith :: "string \<Rightarrow> string \<Rightarrow> bool" where
  "startsWith s p \<longleftrightarrow> take (length p) s = p"

fun includesStr :: "string \<Rightarrow> string \<Rightarrow> bool" where
  "includesStr [] n \<longleftrightarrow> n = []"
| "includesStr (c # cs) n \<longleftrightarrow> startsWith (c # cs) n \<or> includesStr cs n"

text \<open>
  \<^verbatim>\<open>String.prototype.trim\<close> strips, from both ends, every code point that
  ECMAScript calls WhiteSpace or LineTerminator. In the order of the list:
  U+0009 tab, U+000A line feed, U+000B vertical tab, U+000C form feed, U+000D
  carriage return, U+0020 space, U+00A0 no-break space, U+1680, U+2000 to
  U+200A, U+2028 line separator, U+2029 paragraph separator, U+202F, U+205F,
  U+3000 and U+FEFF, each in UTF-8.
\<close>

definition whiteSpace :: "string list" where
  "whiteSpace =
     [[CHR 0x09], [CHR 0x0A], [CHR 0x0B], [CHR 0x0C], [CHR 0x0D], [CHR 0x20],
      [CHR 0xC2, CHR 0xA0],
      [CHR 0xE1, CHR 0x9A, CHR 0x80],
      [CHR 0xE2, CHR 0x80, CHR 0x80], [CHR 0xE2, CHR 0x80, CHR 0x81],
      [CHR 0xE2, CHR 0x80, CHR 0x82], [CHR 0xE2, CHR 0x80, CHR 0x83],
      [CHR 0xE2, CHR 0x80, CHR 0x84], [CHR 0xE2, CHR 0x80, CHR 0x85],
      [CHR 0xE2, CHR 0x80, CHR 0x86], [CHR 0xE2, CHR 0x80, CHR 0x87],
      [CHR 0xE2, CHR 0x80, CHR 0x88], [CHR 0xE2, CHR 0x80, CHR 0x89],
      [CHR 0xE2, CHR 0x80, CHR 0x8A],
      [CHR 0xE2, CHR 0x80, CHR 0xA8], [CHR 0xE2, CHR 0x80, CHR 0xA9],
      [CHR 0xE2, CHR 0x80, CHR 0xAF],
      [CHR 0xE2, CHR 0x81, CHR 0x9F],
      [CHR 0xE3, CHR 0x80, CHR 0x80],
      [CHR 0xEF, CHR 0xBB, CHR 0xBF]]"

text \<open>
  \<open>strip ws s\<close> removes from the start of \<open>s\<close> every leading occurrence of a
  member of \<open>ws\<close>. \<open>trimStart\<close> strips the white space from the start,
  \<open>trimEnd\<close> from the end (the reversed encodings from the reversed string),
  \<open>trim\<close> from both.
\<close>

function strip :: "string list \<Rightarrow> string \<Rightarrow> string" where
  "strip ws s =
     (case find (startsWith s) ws of
        None \<Rightarrow> s
      | Some w \<Rightarrow> if w = [] then s else strip ws (drop (length w) s))"
  by pat_completeness auto
termination
proof (relation "measure (\<lambda>(ws, s). length s)")
  show "wf (measure (\<lambda>(ws, s). length s))"
    by simp
next
  fix ws :: "string list" and s w :: string
  assume found: "find (startsWith s) ws = Some w" and "w \<noteq> []"
  from found have "startsWith s w"
    by (auto simp add: find_Some_iff)
  with \<open>w \<noteq> []\<close> have "s \<noteq> []"
    by (auto simp add: startsWith_def)
  with \<open>w \<noteq> []\<close> show "((ws, drop (length w) s), (ws, s)) \<in> measure (\<lambda>(ws, s). length s)"
    by simp
qed

definition trimStart :: "string \<Rightarrow> string" where
  "trimStart s = strip whiteSpace s"

definition trimEnd :: "string \<Rightarrow> string" where
  "trimEnd s = rev (strip (map rev whiteSpace) (rev s))"

definition trim :: "string \<Rightarrow> string" where
  "trim s = trimEnd (trimStart s)"

text \<open>The line feed of a template literal.\<close>

definition nl :: string where
  "nl = [CHR 0x0A]"

subsection \<open>JavaScript values read from the response\<close>

text \<open>
  A field of the response object is absent (\<^verbatim>\<open>undefined\<close>), \<^verbatim>\<open>null\<close> or a
  string; the contract of the endpoint has no other field types.
  \<open>truthy\<close> is the test of \<^verbatim>\<open>||\<close> and \<^verbatim>\<open>if\<close>; \<open>orElse v d\<close> is
  \<^verbatim>\<open>v || d\<close> with a string default; \<open>toString\<close> is what a template literal
  \<^verbatim>\<open>${v}\<close> prints.
\<close>

datatype jsval = Undefined | Null | Str string

fun truthy :: "jsval \<Rightarrow> bool" where
  "truthy (Str s) \<longleftrightarrow> s \<noteq> []"
| "truthy _ \<longleftrightarrow> False"

fun orElse :: "jsval \<Rightarrow> string \<Rightarrow> string" where
  "orElse (Str s) d = (if s = [] then d else s)"
| "orElse _ d = d"

fun toString :: "jsval \<Rightarrow> string" where
  "toString Undefined = ''undefined''"
| "toString Null = ''null''"
| "toString (Str s) = s"

text \<open>
  The JSON object of a response. The field names of the source are prefixed
  with \<open>d_\<close> (\<open>make\<close> is taken by the record package). \<open>d_success\<close> is the
  truth value of \<^verbatim>\<open>data.success\<close>.
\<close>

record analysis =
  d_success :: bool
  d_make :: jsval
  d_model :: jsval
  d_color :: jsval
  d_damage_summary :: jsval
  d_repair_cost_estimate :: jsval
  d_error :: jsval
  d_detail :: jsval

text \<open>
  What the awaited \<^verbatim>\<open>fetch\<close> delivers: it rejects with an error that has a
  message, or it resolves to a response with its \<^verbatim>\<open>ok\<close> flag (status 200 to
  299) and a body. Reading the body (\<^verbatim>\<open>await response.json()\<close> and the first
  property access) either throws an error with a message or gives the object.
\<close>

datatype body = Unreadable string | Json analysis

datatype response = Rejected string | Response bool body

subsection \<open>Files, requests, downloads\<close>

text \<open>A \<^verbatim>\<open>File\<close> object: its name and its MIME type (\<^verbatim>\<open>file.type\<close>).\<close>

record upload =
  file_name :: string
  file_type :: string

datatype form_value = FileValue upload | TextValue string

record request =
  req_method :: string
  req_url :: string
  req_body :: "(string \<times> form_value) list"

record download =
  dl_name :: string
  dl_type :: string
  dl_text :: string

subsection \<open>The page\<close>

datatype element =
    previewImage | filePreview | urlPreviewImage | urlPreview | uploadArea
  | loadingCard | resultsCard | errorCard | welcomeCard
  | carMake | carModel | carColor | damageSummary | repairCost | errorMessage

text \<open>
  \<open>display\<close> is \<^verbatim>\<open>style.display\<close>, \<open>files\<close> is \<^verbatim>\<open>fileInput.files\<close>, \<open>url_value\<close> is
  \<^verbatim>\<open>imageUrlInput.value\<close>, \<open>btn_disabled\<close> and \<open>btn_innerHTML\<close> belong to
  \<^verbatim>\<open>analyzeBtn\<close>. \<open>requests\<close> logs every call of \<^verbatim>\<open>fetch(API_ENDPOINT, ...)\<close>,
  \<open>downloads\<close> every blob handed to the clicked anchor. Console output and
  \<^verbatim>\<open>preventDefault\<close> leave no trace in the page and are not modelled.
\<close>

record page =
  display :: "element \<Rightarrow> string"
  classList :: "element \<Rightarrow> string list"
  textContent :: "element \<Rightarrow> string"
  src :: "element \<Rightarrow> string"
  files :: "upload list"
  url_value :: string
  btn_disabled :: bool
  btn_innerHTML :: string
  currentAnalysisData :: "analysis option"
  requests :: "request list"
  downloads :: "download list"

definition API_ENDPOINT :: string where
  "API_ENDPOINT = ''/api/analyze''"

text \<open>Statements in sequence: \<open>steps [f, g] s\<close> runs \<open>f\<close>, then \<open>g\<close>.\<close>

definition steps :: "('s \<Rightarrow> 's) list \<Rightarrow> 's \<Rightarrow> 's" where
  "steps fs s = fold (\<lambda>f. f) fs s"

definition setDisplay :: "element \<Rightarrow> string \<Rightarrow> page \<Rightarrow> page" where
  "setDisplay e v s = s\<lparr>display := (display s)(e := v)\<rparr>"

definition setText :: "element \<Rightarrow> string \<Rightarrow> page \<Rightarrow> page" where
  "setText e v s = s\<lparr>textContent := (textContent s)(e := v)\<rparr>"

definition setSrc :: "element \<Rightarrow> string \<Rightarrow> page \<Rightarrow> page" where
  "setSrc e v s = s\<lparr>src := (src s)(e := v)\<rparr>"

definition classAdd :: "element \<Rightarrow> string \<Rightarrow> page \<Rightarrow> page" where
  "classAdd e c s =
     s\<lparr>classList := (classList s)(e := (if c \<in> set (classList s e) then classList s e
                                         else classList s e @ [c]))\<rparr>"

definition classRemove :: "element \<Rightarrow> string \<Rightarrow> page \<Rightarrow> page" where
  "classRemove e c s = s\<lparr>classList := (classList s)(e := removeAll c (classList s e))\<rparr>"

definition setDisabled :: "bool \<Rightarrow> page \<Rightarrow> page" where
  "setDisabled b s = s\<lparr>btn_disabled := b\<rparr>"

definition setInnerHTML :: "string \<Rightarrow> page \<Rightarrow> page" where
  "setInnerHTML v s = s\<lparr>btn_innerHTML := v\<rparr>"

definition setFiles :: "upload list \<Rightarrow> page \<Rightarrow> page" where
  "setFiles fs s = s\<lparr>files := fs\<rparr>"

definition setUrlValue :: "string \<Rightarrow> page \<Rightarrow> page" where
  "setUrlValue v s = s\<lparr>url_value := v\<rparr>"

definition setCurrentAnalysisData :: "analysis option \<Rightarrow> page \<Rightarrow> page" where
  "setCurrentAnalysisData d s = s\<lparr>currentAnalysisData := d\<rparr>"

subsection \<open>View transitions\<close>

definition showLoading :: "page \<Rightarrow> page" where
  "showLoading =
     steps [setDisplay welcomeCard ''none'',
            setDisplay resultsCard ''none'',
            setDisplay errorCard ''none'',
            setDisplay loadingCard ''block'',
            classAdd loadingCard ''pulse'',
            setDisabled True,
            setInnerHTML ''Analyzing...'']"

definition hideLoading :: "page \<Rightarrow> page" where
  "hideLoading =
     steps [setDisplay loadingCard ''none'',
            classRemove loadingCard ''pulse'',
            setDisabled False,
            setInnerHTML ''Analyze Damage'']"

text \<open>
  \<^verbatim>\<open>showResults\<close> and \<^verbatim>\<open>showError\<close> schedule a timer that removes the
  animation classes; the timer's callback is a function of its own, run when
  the timer fires.
\<close>

definition showResults :: "analysis \<Rightarrow> page \<Rightarrow> page" where
  "showResults data =
     steps [setText carMake (orElse (d_make data) ''Unknown''),
            setText carModel (orElse (d_model data) ''Unknown''),
            setText carColor (orElse (d_color data) ''Unknown''),
            setText damageSummary
              (orElse (d_damage_summary data) ''No damage assessment available''),
            setText repairCost (orElse (d_repair_cost_estimate data) ''Unable to estimate''),
            setDisplay welcomeCard ''none'',
            setDisplay errorCard ''none'',
            setDisplay resultsCard ''block'',
            classAdd resultsCard ''slide-in'',
            classAdd resultsCard ''success-glow'']"

definition showResults_timeout :: "page \<Rightarrow> page" where
  "showResults_timeout =
     steps [classRemove resultsCard ''slide-in'',
            classRemove resultsCard ''success-glow'']"

definition showError :: "string \<Rightarrow> page \<Rightarrow> page" where
  "showError message =
     steps [setText errorMessage message,
            setDisplay welcomeCard ''none'',
            setDisplay resultsCard ''none'',
            setDisplay errorCard ''block'',
            classAdd errorCard ''error-shake'',
            hideLoading]"

definition showError_timeout :: "page \<Rightarrow> page" where
  "showError_timeout = classRemove errorCard ''error-shake''"

subsection \<open>Input handling\<close>

text \<open>
  Assigning the empty string to \<^verbatim>\<open>fileInput.value\<close> empties the input's file
  list; that is the only way the script unselects a file.
\<close>

definition clearFile :: "page \<Rightarrow> page" where
  "clearFile =
     steps [setFiles [],
            setDisplay filePreview ''none'',
            setSrc previewImage []]"

definition clearUrl :: "page \<Rightarrow> page" where
  "clearUrl =
     steps [setUrlValue [],
            setDisplay urlPreview ''none'',
            setSrc urlPreviewImage []]"

text \<open>
  \<^verbatim>\<open>previewFile\<close> starts a \<^verbatim>\<open>FileReader\<close> for an image file; its
  \<^verbatim>\<open>onload\<close> callback, run later with the data URL read, is
  \<open>previewFile_onload\<close>.
\<close>

definition previewFile :: "upload \<Rightarrow> page \<Rightarrow> page" where
  "previewFile f s =
     (if \<not> startsWith (file_type f) ''image/'' then showError ''Please select an image file'' s
      else s)"

definition previewFile_onload :: "string \<Rightarrow> page \<Rightarrow> page" where
  "previewFile_onload result =
     steps [setSrc previewImage result,
            setDisplay filePreview ''block'']"

definition previewUrl :: "page \<Rightarrow> page" where
  "previewUrl s =
     (let url = trim (url_value s) in
      if url = [] then showError ''Please enter an image URL'' s
      else steps [clearFile, setSrc urlPreviewImage url] s)"

definition previewUrl_onload :: "page \<Rightarrow> page" where
  "previewUrl_onload = setDisplay urlPreview ''block''"

definition previewUrl_onerror :: "page \<Rightarrow> page" where
  "previewUrl_onerror =
     steps [showError ''Unable to load image from URL. Please check the URL and try again.'',
            setDisplay urlPreview ''none'']"

text \<open>
  The handlers read the event's target. For the \<^verbatim>\<open>change\<close> event of the file
  input that is \<^verbatim>\<open>fileInput.files\<close>, for the \<^verbatim>\<open>input\<close> event of the URL field
  \<^verbatim>\<open>imageUrlInput.value\<close>: the browser has stored the user's choice there
  before the handler runs. \<^verbatim>\<open>handleDrop\<close> gets the dropped files with the event.
\<close>

definition handleFileSelect :: "page \<Rightarrow> page" where
  "handleFileSelect s =
     (case files s of
        [] \<Rightarrow> s
      | f # _ \<Rightarrow> steps [clearUrl, previewFile f] s)"

definition handleDragOver :: "page \<Rightarrow> page" where
  "handleDragOver = classAdd uploadArea ''dragover''"

definition handleDragLeave :: "page \<Rightarrow> page" where
  "handleDragLeave = classRemove uploadArea ''dragover''"

definition handleDrop :: "upload list \<Rightarrow> page \<Rightarrow> page" where
  "handleDrop dropped s =
     (let s1 = classRemove uploadArea ''dragover'' s in
      case dropped of
        [] \<Rightarrow> s1
      | f # _ \<Rightarrow>
          if startsWith (file_type f) ''image/''
          then steps [setFiles dropped, clearUrl, previewFile f] s1
          else showError ''Please drop an image file'' s1)"

definition clearFileWhenUrlEntered :: "page \<Rightarrow> page" where
  "clearFileWhenUrlEntered s = (if trim (url_value s) \<noteq> [] then clearFile s else s)"

subsection \<open>Submission and analysis\<close>

text \<open>
  \<^verbatim>\<open>analyzeImage\<close> up to its first \<^verbatim>\<open>await\<close>: the loading view, the form data
  and the call of \<^verbatim>\<open>fetch\<close>. \<open>file\<close> is \<^verbatim>\<open>fileInput.files[0]\<close>, \<open>None\<close> for
  \<^verbatim>\<open>undefined\<close>.
\<close>

definition formData :: "upload option \<Rightarrow> string \<Rightarrow> (string \<times> form_value) list" where
  "formData file url =
     (case file of None \<Rightarrow> [] | Some f \<Rightarrow> [(''file'', FileValue f)]) @
     (if url \<noteq> [] then [(''image_url'', TextValue url)] else [])"

definition fetch :: "string \<Rightarrow> string \<Rightarrow> (string \<times> form_value) list \<Rightarrow> page \<Rightarrow> page" where
  "fetch url m b s =
     s\<lparr>requests := requests s @ [\<lparr>req_method = m, req_url = url, req_body = b\<rparr>]\<rparr>"

definition analyzeImage_start :: "upload option \<Rightarrow> string \<Rightarrow> page \<Rightarrow> page" where
  "analyzeImage_start file url =
     steps [showLoading,
            fetch API_ENDPOINT ''POST'' (formData file url)]"

text \<open>
  The rest of the \<^verbatim>\<open>try\<close> block, run when the fetch has settled: \<open>Inl\<close> is the
  message of the error thrown (by \<^verbatim>\<open>fetch\<close>, by reading the body, or by one of
  the two \<^verbatim>\<open>throw\<close> statements), \<open>Inr\<close> the data of the success branch.
\<close>

fun try_block :: "response \<Rightarrow> string + analysis" where
  "try_block (Rejected m) = Inl m"
| "try_block (Response ok (Unreadable m)) = Inl m"
| "try_block (Response False (Json errorData)) =
     Inl (orElse (d_detail errorData) ''Analysis failed'')"
| "try_block (Response True (Json data)) =
     (if d_success data then Inr data
      else Inl (orElse (d_error data) ''Analysis failed''))"

definition catch_block :: "string \<Rightarrow> page \<Rightarrow> page" where
  "catch_block message =
     (if includesStr message ''fetch''
      then showError ''Unable to connect to the analysis service. Please check if the backend server is running.''
      else showError (if message = [] then ''Failed to analyze image. Please try again.''
                      else message))"

definition analyzeImage_resume :: "response \<Rightarrow> page \<Rightarrow> page" where
  "analyzeImage_resume r =
     steps [(case try_block r of
               Inr data \<Rightarrow> steps [setCurrentAnalysisData (Some data), showResults data]
             | Inl message \<Rightarrow> catch_block message),
            hideLoading]"

definition analyzeImage :: "upload option \<Rightarrow> string \<Rightarrow> response \<Rightarrow> page \<Rightarrow> page" where
  "analyzeImage file url r = steps [analyzeImage_start file url, analyzeImage_resume r]"

text \<open>
  \<^verbatim>\<open>handleFormSubmit\<close> up to its \<^verbatim>\<open>await\<close>; nothing follows the awaited
  \<^verbatim>\<open>analyzeImage\<close>, whose second part runs when the response is there.
  \<open>firstFile\<close> is \<^verbatim>\<open>fileInput.files[0]\<close>.
\<close>

definition firstFile :: "page \<Rightarrow> upload option" where
  "firstFile s = (case files s of [] \<Rightarrow> None | f # _ \<Rightarrow> Some f)"

definition handleFormSubmit :: "page \<Rightarrow> page" where
  "handleFormSubmit s =
     (let file = firstFile s;
          url = trim (url_value s)
      in if file = None \<and> url = []
         then showError ''Please upload an image file or enter an image URL'' s
         else if file \<noteq> None \<and> url \<noteq> []
         then showError ''Please provide either a file or URL, not both'' s
         else analyzeImage_start file url s)"

definition resetForm :: "page \<Rightarrow> page" where
  "resetForm =
     steps [clearFile,
            clearUrl,
            setCurrentAnalysisData None,
            setDisplay resultsCard ''none'',
            setDisplay errorCard ''none'',
            setDisplay welcomeCard ''block'',
            setDisabled False,
            setInnerHTML ''Analyze Damage'']"

subsection \<open>The report\<close>

text \<open>
  \<open>generated\<close> is \<^verbatim>\<open>new Date().toLocaleString()\<close> and \<open>stamp\<close> is
  \<^verbatim>\<open>new Date().toISOString()\<close> at the time of the call: the clock is an input.
\<close>

definition disclaimer :: string where
  "disclaimer = ''This is an automated assessment for estimation purposes only. Professional inspection is recommended for accurate damage evaluation.''"

definition analysis_method :: string where
  "analysis_method = ''AI-powered analysis using OpenAI GPT-4o''"

definition reportTemplate :: "string \<Rightarrow> analysis \<Rightarrow> string" where
  "reportTemplate generated data = concat
     [nl,
      ''CLAIMCOMPASS DAMAGE ANALYSIS REPORT'', nl,
      ''Generated: '', generated, nl,
      nl,
      ''VEHICLE INFORMATION:'', nl,
      ''Make: '', toString (d_make data), nl,
      ''Model: '', toString (d_model data), nl,
      ''Color: '', toString (d_color data), nl,
      nl,
      ''DAMAGE ASSESSMENT:'', nl,
      toString (d_damage_summary data), nl,
      nl,
      ''ESTIMATED REPAIR COST:'', nl,
      toString (d_repair_cost_estimate data), nl,
      nl,
      ''ANALYSIS METHOD:'', nl,
      analysis_method, nl,
      nl,
      ''DISCLAIMER:'', nl,
      disclaimer, nl,
      nl,
      ''---'', nl,
      ''Report generated by ClaimCompass'', nl,
      ''AI-Powered Insurance Technology Demo'', nl,
      ''    '']"

definition reportText :: "string \<Rightarrow> analysis \<Rightarrow> string" where
  "reportText generated data = trim (reportTemplate generated data)"

definition reportName :: "string \<Rightarrow> string" where
  "reportName stamp =
     ''ClaimCompass_Report_'' @
     map (\<lambda>c. if c = CHR '':'' then CHR ''-'' else c) (take 19 stamp) @
     ''.txt''"

definition downloadReport :: "string \<Rightarrow> string \<Rightarrow> page \<Rightarrow> page" where
  "downloadReport generated stamp s =
     (case currentAnalysisData s of
        None \<Rightarrow> showError ''No analysis data available to download'' s
      | Some data \<Rightarrow>
          s\<lparr>downloads := downloads s @
               [\<lparr>dl_name = reportName stamp, dl_type = ''text/plain'',
                 dl_text = reportText generated data\<rparr>]\<rparr>)"

definition offline :: "page \<Rightarrow> page" where
  "offline = showError ''No internet connection. Please check your network and try again.''"

subsection \<open>Events\<close>

text \<open>
  Everything that can run one of the script's functions: the listeners of
  \<^verbatim>\<open>setupEventListeners\<close>, the callbacks the script registers, the settling of a
  fetch, and the three functions the page calls by name (\<^verbatim>\<open>previewUrl\<close>,
  \<^verbatim>\<open>resetForm\<close>, \<^verbatim>\<open>downloadReport\<close>). \<open>Change\<close> and \<open>Input\<close> carry what
  the user chose; the browser stores it before the listener runs. The click
  and keydown listeners change nothing in the page and are left out. In the
  browser a fetch settles only after it was sent; \<open>step\<close> accepts \<open>Settled\<close>
  in any page, so what holds for all event lists holds for the browser's.
\<close>

datatype event =
    Change "upload list"
  | Drop "upload list"
  | DragOver
  | DragLeave
  | Input string
  | Submit
  | Settled response
  | ReaderLoaded string
  | PreviewUrl
  | UrlImageLoaded
  | UrlImageFailed
  | ResultsTimer
  | ErrorTimer
  | ResetForm
  | DownloadReport string string
  | Offline

fun step :: "event \<Rightarrow> page \<Rightarrow> page" where
  "step (Change fs) s = handleFileSelect (setFiles fs s)"
| "step (Drop fs) s = handleDrop fs s"
| "step DragOver s = handleDragOver s"
| "step DragLeave s = handleDragLeave s"
| "step (Input v) s = clearFileWhenUrlEntered (setUrlValue v s)"
| "step Submit s = handleFormSubmit s"
| "step (Settled r) s = analyzeImage_resume r s"
| "step (ReaderLoaded d) s = previewFile_onload d s"
| "step PreviewUrl s = previewUrl s"
| "step UrlImageLoaded s = previewUrl_onload s"
| "step UrlImageFailed s = previewUrl_onerror s"
| "step ResultsTimer s = showResults_timeout s"
| "step ErrorTimer s = showError_timeout s"
| "step ResetForm s = resetForm s"
| "step (DownloadReport generated stamp) s = downloadReport generated stamp s"
| "step Offline s = offline s"

fun run :: "event list \<Rightarrow> page \<Rightarrow> page" where
  "run [] s = s"
| "run (e # es) s = run es (step e s)"

text \<open>
  Modelled from the spec: the page as loaded. index.html is not among the
  sources; the spec's idle view is the welcome card alone, with no input
  chosen, no result held and nothing sent.
\<close>

definition page_load :: page where
  "page_load =
     \<lparr>display = (\<lambda>e. if e = welcomeCard then ''block'' else ''none''),
      classList = (\<lambda>e. []),
      textContent = (\<lambda>e. []),
      src = (\<lambda>e. []),
      files = [],
      url_value = [],
      btn_disabled = False,
      btn_innerHTML = ''Analyze Damage'',
      currentAnalysisData = None,
      requests = [],
      downloads = []\<rparr>"

subsection \<open>What the properties speak about\<close>

text \<open>
  An input is present when the submit handler sees it: a file when
  \<^verbatim>\<open>fileInput.files[0]\<close> is defined, a URL when the trimmed value of the URL field
  is not empty.
\<close>

definition file_present :: "page \<Rightarrow> bool" where
  "file_present s \<longleftrightarrow> files s \<noteq> []"

definition url_present :: "page \<Rightarrow> bool" where
  "url_present s \<longleftrightarrow> trim (url_value s) \<noteq> []"

text \<open>The cards that are displayed, and the analyze button with the loading card at rest.\<close>

definition shown :: "page \<Rightarrow> element list" where
  "shown s = filter (\<lambda>e. display s e \<noteq> ''none'') [welcomeCard, loadingCard, resultsCard, errorCard]"

definition idle_controls :: "page \<Rightarrow> bool" where
  "idle_controls s \<longleftrightarrow>
     display s loadingCard = ''none'' \<and> \<not> btn_disabled s \<and> btn_innerHTML s = ''Analyze Damage''"

text \<open>
  An event list in which \<^verbatim>\<open>resetForm\<close> is called only while the loading card
  is hidden, run from page \<open>s\<close>.
\<close>

fun resets_while_idle :: "event list \<Rightarrow> page \<Rightarrow> bool" where
  "resets_while_idle [] s \<longleftrightarrow> True"
| "resets_while_idle (e # es) s \<longleftrightarrow>
     (e \<noteq> ResetForm \<or> display s loadingCard = ''none'') \<and> resets_while_idle es (step e s)"

text \<open>
  The result a reader of the event history expects to be held: the data of the
  latest successful response since the latest reset, started from \<open>c\<close>.
\<close>

fun latest_success :: "event list \<Rightarrow> analysis option \<Rightarrow> analysis option" where
  "latest_success [] c = c"
| "latest_success (Settled (Response True (Json data)) # es) c =
     latest_success es (if d_success data then Some data else c)"
| "latest_success (ResetForm # es) c = latest_success es None"
| "latest_success (e # es) c = latest_success es c"


section \<open>Properties\<close>

subsection \<open>Unfolding the script\<close>

lemmas prim_defs = steps_def setDisplay_def setText_def setSrc_def classAdd_def classRemove_def
  setDisabled_def setInnerHTML_def setFiles_def setUrlValue_def setCurrentAnalysisData_def
  fetch_def

lemmas view_defs = showLoading_def hideLoading_def showResults_def showError_def
  showResults_timeout_def showError_timeout_def

lemmas input_defs = clearFile_def clearUrl_def previewFile_def previewFile_onload_def
  previewUrl_def previewUrl_onload_def previewUrl_onerror_def handleFileSelect_def
  handleDragOver_def handleDragLeave_def handleDrop_def clearFileWhenUrlEntered_def

lemmas submit_defs = analyzeImage_start_def catch_block_def analyzeImage_resume_def
  analyzeImage_def handleFormSubmit_def resetForm_def downloadReport_def offline_def
  firstFile_def

lemmas script_defs = prim_defs view_defs input_defs submit_defs

declare strip.simps [simp del]

lemma strip_Nil: "strip ws [] = []"
  by (subst strip.simps) (auto simp add: startsWith_def find_Some_iff split: option.split)

lemma strip_Cons:
  "strip ws (c # s) =
     (case find (startsWith (c # s)) ws of
        None \<Rightarrow> c # s
      | Some w \<Rightarrow> if w = [] then c # s else strip ws (drop (length w) (c # s)))"
  by (subst strip.simps) simp

text \<open>The rules that trim a string whose ends are written out.\<close>

lemmas trim_eval = trim_def trimStart_def trimEnd_def strip_Nil strip_Cons whiteSpace_def
  startsWith_def

lemma trim_Nil [simp]: "trim [] = []"
  by (simp add: trim_def trimStart_def trimEnd_def strip_Nil)

lemma trim_example_url: "trim ''http://x/car.jpg'' = ''http://x/car.jpg''"
  by (simp add: trim_eval)


subsection \<open>What one event does to each part of the page\<close>

lemma files_step:
  "files (step e s) =
     (case e of Change fs \<Rightarrow> fs
      | Drop (f # fs) \<Rightarrow> if startsWith (file_type f) ''image/'' then f # fs else files s
      | Input v \<Rightarrow> if trim v \<noteq> [] then [] else files s
      | PreviewUrl \<Rightarrow> if trim (url_value s) \<noteq> [] then [] else files s
      | ResetForm \<Rightarrow> []
      | _ \<Rightarrow> files s)"
  by (cases e) (simp_all add: script_defs Let_def split: list.split sum.split option.split)

lemma url_value_step:
  "url_value (step e s) =
     (case e of Change (f # fs) \<Rightarrow> []
      | Drop (f # fs) \<Rightarrow> if startsWith (file_type f) ''image/'' then [] else url_value s
      | Input v \<Rightarrow> v
      | ResetForm \<Rightarrow> []
      | _ \<Rightarrow> url_value s)"
  by (cases e) (simp_all add: script_defs Let_def split: list.split sum.split option.split)

lemma currentAnalysisData_step:
  "currentAnalysisData (step e s) =
     (case e of
        Settled r \<Rightarrow> (case try_block r of Inr d \<Rightarrow> Some d | Inl m \<Rightarrow> currentAnalysisData s)
      | ResetForm \<Rightarrow> None
      | _ \<Rightarrow> currentAnalysisData s)"
  by (cases e) (simp_all add: script_defs Let_def split: list.split sum.split option.split)


lemma try_block_Inr:
  "try_block r = Inr d \<longleftrightarrow> r = Response True (Json d) \<and> d_success d"
  by (cases r rule: try_block.cases) auto

lemma shown_analyzeImage_resume:
  "shown (analyzeImage_resume r s) =
     (case try_block r of Inr d \<Rightarrow> [resultsCard] | Inl m \<Rightarrow> [errorCard])"
  by (simp add: shown_def script_defs split: sum.split)

lemma errorMessage_analyzeImage_resume:
  "try_block r = Inl m \<Longrightarrow>
   textContent (analyzeImage_resume r s) errorMessage =
     (if includesStr m ''fetch''
      then ''Unable to connect to the analysis service. Please check if the backend server is running.''
      else if m = [] then ''Failed to analyze image. Please try again.'' else m)"
  by (simp add: script_defs)

subsection \<open>Invariants of event sequences\<close>

lemma exclusive_step:
  "\<not> (file_present s \<and> url_present s) \<Longrightarrow>
   \<not> (file_present (step e s) \<and> url_present (step e s))"
  by (auto simp add: file_present_def url_present_def files_step url_value_step
      split: event.splits list.splits if_splits)

lemma exclusive_run:
  "\<not> (file_present s \<and> url_present s) \<Longrightarrow>
   \<not> (file_present (run es s) \<and> url_present (run es s))"
proof (induction es arbitrary: s)
  case Nil
  then show ?case by simp
next
  case (Cons e es)
  from Cons.prems have "\<not> (file_present (step e s) \<and> url_present (step e s))"
    by (rule exclusive_step)
  then show ?case using Cons.IH by simp
qed

lemma latest_success_step:
  "latest_success (e # es) c =
     latest_success es
       (case e of
          Settled r \<Rightarrow> (case try_block r of Inr d \<Rightarrow> Some d | Inl m \<Rightarrow> c)
        | ResetForm \<Rightarrow> None
        | _ \<Rightarrow> c)"
  by (cases "(e # es, c)" rule: latest_success.cases)
    (auto simp add: try_block_Inr split: sum.split)

lemma currentAnalysisData_run:
  "currentAnalysisData (run es s) = latest_success es (currentAnalysisData s)"
proof (induction es arbitrary: s)
  case Nil
  show ?case by simp
next
  case (Cons e es)
  have "currentAnalysisData (run (e # es) s) =
        latest_success es (currentAnalysisData (step e s))"
    using Cons.IH by simp
  also have "\<dots> = latest_success (e # es) (currentAnalysisData s)"
    by (simp only: latest_success_step currentAnalysisData_step)
  finally show ?case .
qed

lemma error_idle_step:
  "(display s errorCard \<noteq> ''none'' \<longrightarrow> idle_controls s) \<Longrightarrow>
   (display (step e s) errorCard \<noteq> ''none'' \<longrightarrow> idle_controls (step e s))"
  by (cases e)
    (auto simp add: idle_controls_def script_defs Let_def
      split: list.split sum.split option.split)

lemma error_idle_run:
  "(display s errorCard \<noteq> ''none'' \<longrightarrow> idle_controls s) \<Longrightarrow>
   (display (run es s) errorCard \<noteq> ''none'' \<longrightarrow> idle_controls (run es s))"
proof (induction es arbitrary: s)
  case Nil
  then show ?case by simp
next
  case (Cons e es)
  from Cons.prems
  have "display (step e s) errorCard \<noteq> ''none'' \<longrightarrow> idle_controls (step e s)"
    by (rule error_idle_step)
  then show ?case using Cons.IH by simp
qed

subsection \<open>The cards displayed\<close>

lemma shown_after_view_transitions:
  "shown (showLoading s) = [loadingCard]"
  "shown (showError message s) = [errorCard]"
  "shown (hideLoading (showResults data s)) = [resultsCard]"
  "display s loadingCard = ''none'' \<Longrightarrow> shown (showResults data s) = [resultsCard]"
  "display s loadingCard = ''none'' \<Longrightarrow> shown (resetForm s) = [welcomeCard]"
  by (simp_all add: shown_def script_defs)

text \<open>
  Every event but a reset leaves the displayed cards as they were or leaves
  exactly one of the loading, results and error cards.
\<close>

lemma shown_step:
  "e \<noteq> ResetForm \<Longrightarrow>
   shown (step e s) = shown s \<or> shown (step e s) = [loadingCard] \<or>
   shown (step e s) = [resultsCard] \<or> shown (step e s) = [errorCard]"
  by (cases e)
    (simp_all add: shown_def script_defs Let_def split: list.split sum.split option.split)

lemma one_card_step:
  assumes "length (shown s) = 1"
    and "e \<noteq> ResetForm \<or> display s loadingCard = ''none''"
  shows "length (shown (step e s)) = 1"
proof (cases "e = ResetForm")
  case True
  with assms(2) show ?thesis
    by (simp add: shown_after_view_transitions)
next
  case False
  then show ?thesis
    using shown_step [of e s] assms(1) by auto
qed

text \<open>
  From a page with one card displayed, every sequence of events that calls
  \<^verbatim>\<open>resetForm\<close> only while the loading card is hidden ends with one card
  displayed.
\<close>

lemma one_card_run:
  "length (shown s) = 1 \<Longrightarrow> resets_while_idle es s \<Longrightarrow> length (shown (run es s)) = 1"
proof (induction es arbitrary: s)
  case Nil
  then show ?case by simp
next
  case (Cons e es)
  from Cons.prems have "length (shown (step e s)) = 1"
    by (intro one_card_step) simp_all
  moreover from Cons.prems have "resets_while_idle es (step e s)"
    by simp
  ultimately show ?case
    using Cons.IH by simp
qed

subsection \<open>The text of the report\<close>

lemma includesStr_here: "includesStr (n @ b) n"
  by (cases "n @ b") (simp_all add: startsWith_def, metis append_eq_conv_conj)

lemma includesStr_skip: "includesStr s n \<Longrightarrow> includesStr (p @ s) n"
  by (induction p) simp_all

text \<open>The trimmed template: the leading line feed and the trailing indentation are gone.\<close>

lemma reportText_eq:
  "reportText generated data = concat
     [''CLAIMCOMPASS DAMAGE ANALYSIS REPORT'', nl,
      ''Generated: '', generated, nl,
      nl,
      ''VEHICLE INFORMATION:'', nl,
      ''Make: '', toString (d_make data), nl,
      ''Model: '', toString (d_model data), nl,
      ''Color: '', toString (d_color data), nl,
      nl,
      ''DAMAGE ASSESSMENT:'', nl,
      toString (d_damage_summary data), nl,
      nl,
      ''ESTIMATED REPAIR COST:'', nl,
      toString (d_repair_cost_estimate data), nl,
      nl,
      ''ANALYSIS METHOD:'', nl,
      analysis_method, nl,
      nl,
      ''DISCLAIMER:'', nl,
      disclaimer, nl,
      nl,
      ''---'', nl,
      ''Report generated by ClaimCompass'', nl,
      ''AI-Powered Insurance Technology Demo'']"
  (is "_ = ?body")
proof -
  have split: "reportTemplate generated data = nl @ ?body @ (nl @ ''    '')"
    by (simp add: reportTemplate_def)
  have "trim (nl @ ?body @ (nl @ ''    '')) = ?body"
    by (simp add: trim_eval nl_def)
  then show ?thesis
    by (simp only: reportText_def split)
qed

text \<open>
  Whatever the response held, the report prints its five fields as a template
  literal does, and the disclaimer.
\<close>

lemma reportText_includes:
  "includesStr (reportText generated data) (toString (d_make data))"
  "includesStr (reportText generated data) (toString (d_model data))"
  "includesStr (reportText generated data) (toString (d_color data))"
  "includesStr (reportText generated data) (toString (d_damage_summary data))"
  "includesStr (reportText generated data) (toString (d_repair_cost_estimate data))"
  "includesStr (reportText generated data) disclaimer"
  unfolding reportText_eq concat.simps
  by (rule includesStr_here | rule includesStr_skip)+

text \<open>
  When a field is a non-empty string, what the results view shows for it is in
  the report.
\<close>

lemma reportText_includes_rendered:
  "truthy (d_make data) \<Longrightarrow>
     includesStr (reportText generated data) (textContent (showResults data s) carMake)"
  "truthy (d_model data) \<Longrightarrow>
     includesStr (reportText generated data) (textContent (showResults data s) carModel)"
  "truthy (d_color data) \<Longrightarrow>
     includesStr (reportText generated data) (textContent (showResults data s) carColor)"
  "truthy (d_damage_summary data) \<Longrightarrow>
     includesStr (reportText generated data) (textContent (showResults data s) damageSummary)"
  "truthy (d_repair_cost_estimate data) \<Longrightarrow>
     includesStr (reportText generated data) (textContent (showResults data s) repairCost)"
proof -
  have same: "truthy v \<Longrightarrow> orElse v d = toString v" for v d
    by (cases v) simp_all
  show "truthy (d_make data) \<Longrightarrow>
     includesStr (reportText generated data) (textContent (showResults data s) carMake)"
    using reportText_includes(1) [of generated data]
    by (simp add: showResults_def prim_defs same)
  show "truthy (d_model data) \<Longrightarrow>
     includesStr (reportText generated data) (textContent (showResults data s) carModel)"
    using reportText_includes(2) [of generated data]
    by (simp add: showResults_def prim_defs same)
  show "truthy (d_color data) \<Longrightarrow>
     includesStr (reportText generated data) (textContent (showResults data s) carColor)"
    using reportText_includes(3) [of generated data]
    by (simp add: showResults_def prim_defs same)
  show "truthy (d_damage_summary data) \<Longrightarrow>
     includesStr (reportText generated data) (textContent (showResults data s) damageSummary)"
    using reportText_includes(4) [of generated data]
    by (simp add: showResults_def prim_defs same)
  show "truthy (d_repair_cost_estimate data) \<Longrightarrow>
     includesStr (reportText generated data) (textContent (showResults data s) repairCost)"
    using reportText_includes(5) [of generated data]
    by (simp add: showResults_def prim_defs same)
qed

section \<open>The claims\<close>

subsection \<open>Validation on submit\<close>



subsection \<open>Messages of failed analyses\<close>

text \<open>
  Claim C2, at a failing input. Every failed attempt ends in the error view
  (\<open>shown_analyzeImage_resume\<close>), and the message shown is the thrown one
  unless it includes the word ``fetch'' (\<open>errorMessage_analyzeImage_resume\<close>).
  A response with a non-2xx status whose body has the detail ``Failed to fetch
  image from URL'' throws that detail, and the \<^verbatim>\<open>catch\<close> block, which looks
  for ``fetch'' to recognise a network failure, shows the connectivity message
  in its place. The same happens to the error field of a response with
  \<^verbatim>\<open>success: false\<close>. The detail is present and is not shown verbatim.
\<close>

theorem detail_with_fetch_is_replaced:
  "textContent
     (run [Input ''http://x/car.jpg'', Submit,
           Settled (Response False (Json
             \<lparr>d_success = False, d_make = Undefined, d_model = Undefined, d_color = Undefined,
               d_damage_summary = Undefined, d_repair_cost_estimate = Undefined,
               d_error = Undefined, d_detail = Str ''Failed to fetch image from URL''\<rparr>))]
        page_load) errorMessage =
     ''Unable to connect to the analysis service. Please check if the backend server is running.'' \<and>
   try_block (Response False (Json
             \<lparr>d_success = False, d_make = Undefined, d_model = Undefined, d_color = Undefined,
               d_damage_summary = Undefined, d_repair_cost_estimate = Undefined,
               d_error = Undefined, d_detail = Str ''Failed to fetch image from URL''\<rparr>)) =
     Inl ''Failed to fetch image from URL'' \<and>
   textContent
     (run [Input ''http://x/car.jpg'', Submit,
           Settled (Response True (Json
             \<lparr>d_success = False, d_make = Undefined, d_model = Undefined, d_color = Undefined,
               d_damage_summary = Undefined, d_repair_cost_estimate = Undefined,
               d_error = Str ''Could not fetch the image'', d_detail = Undefined\<rparr>))]
        page_load) errorMessage =
     ''Unable to connect to the analysis service. Please check if the backend server is running.''"
  by (simp add: script_defs page_load_def startsWith_def trim_example_url)

subsection \<open>The report against the results view\<close>

text \<open>
  Claim C3, at a failing input. The report prints the stored fields as a
  template literal does (\<open>reportText_includes\<close>), so it holds what the results
  view showed for every field that is a non-empty string
  (\<open>reportText_includes_rendered\<close>). \<^verbatim>\<open>showResults\<close> replaces an absent field by
  its default, \<^verbatim>\<open>downloadReport\<close> does not: after a successful response without
  a make, the results view shows ``Unknown'' and the report reads
  ``Make: undefined''; the text ``Unknown'' is nowhere in it.
\<close>

theorem report_prints_undefined_for_absent_make:
  "textContent
     (run [Input ''http://x/car.jpg'', Submit,
           Settled (Response True (Json
             \<lparr>d_success = True, d_make = Undefined, d_model = Str ''Civic'', d_color = Str ''Red'',
               d_damage_summary = Str ''Dent in the front bumper'',
               d_repair_cost_estimate = Str ''$500 - $900'',
               d_error = Undefined, d_detail = Undefined\<rparr>))]
        page_load) carMake = ''Unknown'' \<and>
   map dl_text (downloads
     (run [Input ''http://x/car.jpg'', Submit,
           Settled (Response True (Json
             \<lparr>d_success = True, d_make = Undefined, d_model = Str ''Civic'', d_color = Str ''Red'',
               d_damage_summary = Str ''Dent in the front bumper'',
               d_repair_cost_estimate = Str ''$500 - $900'',
               d_error = Undefined, d_detail = Undefined\<rparr>)),
           DownloadReport ''11/2/2026, 9:00:00 AM'' ''2026-11-02T09:00:00.000Z'']
        page_load)) =
     [concat
       [''CLAIMCOMPASS DAMAGE ANALYSIS REPORT'', nl,
        ''Generated: 11/2/2026, 9:00:00 AM'', nl,
        nl,
        ''VEHICLE INFORMATION:'', nl,
        ''Make: undefined'', nl,
        ''Model: Civic'', nl,
        ''Color: Red'', nl,
        nl,
        ''DAMAGE ASSESSMENT:'', nl,
        ''Dent in the front bumper'', nl,
        nl,
        ''ESTIMATED REPAIR COST:'', nl,
        ''$500 - $900'', nl,
        nl,
        ''ANALYSIS METHOD:'', nl,
        ''AI-powered analysis using OpenAI GPT-4o'', nl,
        nl,
        ''DISCLAIMER:'', nl,
        ''This is an automated assessment for estimation purposes only. Professional inspection is recommended for accurate damage evaluation.'', nl,
        nl,
        ''---'', nl,
        ''Report generated by ClaimCompass'', nl,
        ''AI-Powered Insurance Technology Demo'']] \<and>
   map dl_name (downloads
     (run [Input ''http://x/car.jpg'', Submit,
           Settled (Response True (Json
             \<lparr>d_success = True, d_make = Undefined, d_model = Str ''Civic'', d_color = Str ''Red'',
               d_damage_summary = Str ''Dent in the front bumper'',
               d_repair_cost_estimate = Str ''$500 - $900'',
               d_error = Undefined, d_detail = Undefined\<rparr>)),
           DownloadReport ''11/2/2026, 9:00:00 AM'' ''2026-11-02T09:00:00.000Z'']
        page_load)) = [''ClaimCompass_Report_2026-11-02T09-00-00.txt''] \<and>
   \<not> includesStr
     (reportText ''11/2/2026, 9:00:00 AM''
        \<lparr>d_success = True, d_make = Undefined, d_model = Str ''Civic'', d_color = Str ''Red'',
          d_damage_summary = Str ''Dent in the front bumper'',
          d_repair_cost_estimate = Str ''$500 - $900'',
          d_error = Undefined, d_detail = Undefined\<rparr>)
     ''Unknown''"
  by (simp add: script_defs page_load_def startsWith_def reportText_eq reportName_def
      analysis_method_def disclaimer_def nl_def)

subsection \<open>Rendering a result\<close>

text \<open>
  Claim C4. \<^verbatim>\<open>showResults\<close> writes each field of the response that is a
  non-empty string into its element as it is, and writes ``Unknown'' for each
  of make, model and color that is absent, null or the empty string.
\<close>

theorem showResults_renders:
  "(d_make data = Str a \<and> a \<noteq> [] \<longrightarrow> textContent (showResults data s) carMake = a) \<and>
   (d_model data = Str b \<and> b \<noteq> [] \<longrightarrow> textContent (showResults data s) carModel = b) \<and>
   (d_color data = Str c \<and> c \<noteq> [] \<longrightarrow> textContent (showResults data s) carColor = c) \<and>
   (d_damage_summary data = Str d \<and> d \<noteq> [] \<longrightarrow>
      textContent (showResults data s) damageSummary = d) \<and>
   (d_repair_cost_estimate data = Str e \<and> e \<noteq> [] \<longrightarrow>
      textContent (showResults data s) repairCost = e) \<and>
   (\<not> truthy (d_make data) \<longrightarrow> textContent (showResults data s) carMake = ''Unknown'') \<and>
   (\<not> truthy (d_model data) \<longrightarrow> textContent (showResults data s) carModel = ''Unknown'') \<and>
   (\<not> truthy (d_color data) \<longrightarrow> textContent (showResults data s) carColor = ''Unknown'')"
proof -
  have absent: "\<not> truthy v \<Longrightarrow> orElse v x = x" for v x
    by (cases v) simp_all
  show ?thesis
    by (simp add: showResults_def prim_defs absent)
qed

theorem showResults_renders_witness:
  "textContent (showResults
      \<lparr>d_success = True, d_make = Str ''Honda'', d_model = Str ''Civic'', d_color = Str ''Red'',
        d_damage_summary = Str ''Dent in the front bumper'',
        d_repair_cost_estimate = Str ''$500 - $900'', d_error = Undefined, d_detail = Undefined\<rparr>
      page_load) carMake = ''Honda'' \<and>
   \<not> truthy (d_make
      \<lparr>d_success = True, d_make = Undefined, d_model = Null, d_color = Str [],
        d_damage_summary = Str ''Dent in the front bumper'',
        d_repair_cost_estimate = Str ''$500 - $900'', d_error = Undefined, d_detail = Undefined\<rparr>) \<and>
   map (textContent (showResults
      \<lparr>d_success = True, d_make = Undefined, d_model = Null, d_color = Str [],
        d_damage_summary = Str ''Dent in the front bumper'',
        d_repair_cost_estimate = Str ''$500 - $900'', d_error = Undefined, d_detail = Undefined\<rparr>
      page_load)) [carMake, carModel, carColor] = [''Unknown'', ''Unknown'', ''Unknown'']"
  using showResults_renders
    [where data = "\<lparr>d_success = True, d_make = Str ''Honda'', d_model = Str ''Civic'',
        d_color = Str ''Red'', d_damage_summary = Str ''Dent in the front bumper'',
        d_repair_cost_estimate = Str ''$500 - $900'', d_error = Undefined, d_detail = Undefined\<rparr>"
      and a = "''Honda''" and b = "''Civic''" and c = "''Red''"
      and d = "''Dent in the front bumper''" and e = "''$500 - $900''" and s = page_load]
    showResults_renders
    [where data = "\<lparr>d_success = True, d_make = Undefined, d_model = Null, d_color = Str [],
        d_damage_summary = Str ''Dent in the front bumper'',
        d_repair_cost_estimate = Str ''$500 - $900'', d_error = Undefined, d_detail = Undefined\<rparr>"
      and s = page_load]
  by simp

subsection \<open>Downloading without a result\<close>

text \<open>
  Claim C5. When \<^verbatim>\<open>currentAnalysisData\<close> is null, \<^verbatim>\<open>downloadReport\<close> is exactly
  \<^verbatim>\<open>showError('No analysis data available to download')\<close>: that message is in
  the error card, the error card alone is displayed, and no file is handed to
  the browser. With or without a result, \<^verbatim>\<open>downloadReport\<close> sends no request.
\<close>

theorem downloadReport_without_data:
  "(currentAnalysisData s = None \<longrightarrow>
      downloadReport generated stamp s = showError ''No analysis data available to download'' s \<and>
      textContent (downloadReport generated stamp s) errorMessage =
        ''No analysis data available to download'' \<and>
      shown (downloadReport generated stamp s) = [errorCard] \<and>
      downloads (downloadReport generated stamp s) = downloads s) \<and>
   requests (downloadReport generated stamp s) = requests s"
  by (simp add: downloadReport_def shown_def view_defs prim_defs split: option.split)

theorem downloadReport_without_data_witness:
  "currentAnalysisData page_load = None \<and>
   textContent (downloadReport ''11/2/2026, 9:00:00 AM'' ''2026-11-02T09:00:00.000Z'' page_load)
     errorMessage = ''No analysis data available to download'' \<and>
   downloads (downloadReport ''11/2/2026, 9:00:00 AM'' ''2026-11-02T09:00:00.000Z'' page_load) = [] \<and>
   requests (downloadReport ''11/2/2026, 9:00:00 AM'' ''2026-11-02T09:00:00.000Z'' page_load) = []"
  using downloadReport_without_data
    [of page_load "''11/2/2026, 9:00:00 AM''" "''2026-11-02T09:00:00.000Z''"]
  by (simp add: page_load_def view_defs prim_defs)

subsection \<open>Submitting a file that is not an image\<close>

text \<open>
  Claim C6, at a failing input. Choosing a PDF in the file dialog shows
  ``Please select an image file'' at once, but the file stays in the file
  input: \<^verbatim>\<open>handleFormSubmit\<close> does not look at the type, and submitting posts the
  PDF to the analysis endpoint. Dropping the same file keeps it out of the
  file input, and submitting then posts nothing.
\<close>

theorem non_image_file_is_posted:
  "textContent (run [Change [\<lparr>file_name = ''claim.pdf'', file_type = ''application/pdf''\<rparr>]]
                  page_load) errorMessage = ''Please select an image file'' \<and>
   requests (run [Change [\<lparr>file_name = ''claim.pdf'', file_type = ''application/pdf''\<rparr>], Submit]
               page_load) =
     [\<lparr>req_method = ''POST'', req_url = ''/api/analyze'',
       req_body = [(''file'', FileValue \<lparr>file_name = ''claim.pdf'',
                                         file_type = ''application/pdf''\<rparr>)]\<rparr>] \<and>
   requests (run [Drop [\<lparr>file_name = ''claim.pdf'', file_type = ''application/pdf''\<rparr>], Submit]
               page_load) = []"
  by (simp add: script_defs page_load_def startsWith_def formData_def API_ENDPOINT_def)

subsection \<open>File and URL exclude each other\<close>

text \<open>
  Claim C7, refuted as stated. The \<^verbatim>\<open>input\<close> listener clears the file only
  when the trimmed value of the URL field is not empty: after choosing a file
  and typing a space, the file is still selected and the value of the URL
  field is not empty. And a dropped file that is not an image is refused
  before anything is cleared: the URL stays in its field.
\<close>

theorem blank_url_keeps_file_counterexample:
  "files (run [Change [\<lparr>file_name = ''car.png'', file_type = ''image/png''\<rparr>], Input '' '']
            page_load) = [\<lparr>file_name = ''car.png'', file_type = ''image/png''\<rparr>] \<and>
   url_value (run [Change [\<lparr>file_name = ''car.png'', file_type = ''image/png''\<rparr>], Input '' '']
            page_load) = '' '' \<and>
   url_value (run [Input ''http://x/car.jpg'',
                   Drop [\<lparr>file_name = ''claim.pdf'', file_type = ''application/pdf''\<rparr>]]
            page_load) = ''http://x/car.jpg''"
  by (simp add: script_defs page_load_def startsWith_def trim_eval)

text \<open>
  Claim C7, amended. A \<^verbatim>\<open>change\<close> event that selects files, and a drop of an
  image file, leave those files selected, the URL field empty and the URL
  preview hidden; a drop of another file selects nothing and changes neither
  input. An \<^verbatim>\<open>input\<close> event with a URL that is not empty after trimming leaves
  the URL in its field, no file selected and the file preview hidden. Hence no
  sequence of events, from the loaded page or from any page that has not both,
  reaches a page with a selected file and a URL that is not empty after
  trimming, which is what the submit handler refuses.
\<close>

theorem inputs_mutually_exclusive:
  "(fs \<noteq> [] \<longrightarrow>
      files (step (Change fs) s) = fs \<and>
      url_value (step (Change fs) s) = [] \<and>
      display (step (Change fs) s) urlPreview = ''none'') \<and>
   (startsWith (file_type f) ''image/'' \<longrightarrow>
      files (handleDrop (f # fs) s) = f # fs \<and>
      url_value (handleDrop (f # fs) s) = [] \<and>
      display (handleDrop (f # fs) s) urlPreview = ''none'') \<and>
   (\<not> startsWith (file_type f) ''image/'' \<longrightarrow>
      files (handleDrop (f # fs) s) = files s \<and>
      url_value (handleDrop (f # fs) s) = url_value s) \<and>
   (trim v \<noteq> [] \<longrightarrow>
      url_value (step (Input v) s) = v \<and>
      files (step (Input v) s) = [] \<and>
      display (step (Input v) s) filePreview = ''none'') \<and>
   (\<not> (file_present s \<and> url_present s) \<longrightarrow>
      \<not> (file_present (run es s) \<and> url_present (run es s))) \<and>
   \<not> (file_present (run es page_load) \<and> url_present (run es page_load))"
proof -
  have change: "fs \<noteq> [] \<Longrightarrow>
      files (step (Change fs) s) = fs \<and>
      url_value (step (Change fs) s) = [] \<and>
      display (step (Change fs) s) urlPreview = ''none''"
    by (cases fs) (simp_all add: script_defs)
  have drop_image: "startsWith (file_type f) ''image/'' \<Longrightarrow>
      files (handleDrop (f # fs) s) = f # fs \<and>
      url_value (handleDrop (f # fs) s) = [] \<and>
      display (handleDrop (f # fs) s) urlPreview = ''none''"
    by (simp add: script_defs Let_def)
  have drop_other: "\<not> startsWith (file_type f) ''image/'' \<Longrightarrow>
      files (handleDrop (f # fs) s) = files s \<and>
      url_value (handleDrop (f # fs) s) = url_value s"
    by (simp add: script_defs Let_def)
  have typed: "trim v \<noteq> [] \<Longrightarrow>
      url_value (step (Input v) s) = v \<and>
      files (step (Input v) s) = [] \<and>
      display (step (Input v) s) filePreview = ''none''"
    by (simp add: script_defs)
  have start: "\<not> (file_present page_load \<and> url_present page_load)"
    by (simp add: file_present_def page_load_def)
  show ?thesis
    using change drop_image drop_other typed exclusive_run [of s es] exclusive_run [OF start, of es]
    by blast
qed

theorem inputs_mutually_exclusive_witness:
  "files (step (Change [\<lparr>file_name = ''car.png'', file_type = ''image/png''\<rparr>])
            (step (Input ''http://x/car.jpg'') page_load)) =
     [\<lparr>file_name = ''car.png'', file_type = ''image/png''\<rparr>] \<and>
   url_value (step (Change [\<lparr>file_name = ''car.png'', file_type = ''image/png''\<rparr>])
            (step (Input ''http://x/car.jpg'') page_load)) = [] \<and>
   startsWith (file_type \<lparr>file_name = ''car.png'', file_type = ''image/png''\<rparr>) ''image/'' \<and>
   url_value (handleDrop [\<lparr>file_name = ''car.png'', file_type = ''image/png''\<rparr>]
            (step (Input ''http://x/car.jpg'') page_load)) = [] \<and>
   \<not> startsWith (file_type \<lparr>file_name = ''car.pdf'', file_type = ''application/pdf''\<rparr>) ''image/'' \<and>
   url_value (handleDrop [\<lparr>file_name = ''car.pdf'', file_type = ''application/pdf''\<rparr>]
            (step (Input ''http://x/car.jpg'') page_load)) = ''http://x/car.jpg'' \<and>
   trim ''http://x/car.jpg'' \<noteq> [] \<and>
   files (step (Input ''http://x/car.jpg'')
            (step (Change [\<lparr>file_name = ''car.png'', file_type = ''image/png''\<rparr>]) page_load)) = [] \<and>
   \<not> (file_present (run [Change [\<lparr>file_name = ''car.png'', file_type = ''image/png''\<rparr>],
                           Input ''http://x/car.jpg''] page_load) \<and>
      url_present (run [Change [\<lparr>file_name = ''car.png'', file_type = ''image/png''\<rparr>],
                          Input ''http://x/car.jpg''] page_load))"
  using
    inputs_mutually_exclusive
      [where fs = "[\<lparr>file_name = ''car.png'', file_type = ''image/png''\<rparr>]"
        and s = "step (Input ''http://x/car.jpg'') page_load"]
    inputs_mutually_exclusive
      [where f = "\<lparr>file_name = ''car.png'', file_type = ''image/png''\<rparr>" and fs = "[]"
        and s = "step (Input ''http://x/car.jpg'') page_load"]
    inputs_mutually_exclusive
      [where f = "\<lparr>file_name = ''car.pdf'', file_type = ''application/pdf''\<rparr>" and fs = "[]"
        and s = "step (Input ''http://x/car.jpg'') page_load"]
    inputs_mutually_exclusive
      [where v = "''http://x/car.jpg''"
        and s = "step (Change [\<lparr>file_name = ''car.png'', file_type = ''image/png''\<rparr>]) page_load"
        and es = "[Change [\<lparr>file_name = ''car.png'', file_type = ''image/png''\<rparr>],
                   Input ''http://x/car.jpg'']"]
  by (simp add: script_defs page_load_def startsWith_def trim_example_url)

subsection \<open>One card at a time\<close>

text \<open>
  Claim C8, at a failing input. \<^verbatim>\<open>showLoading\<close> and \<^verbatim>\<open>showError\<close> leave one
  card displayed, and so does \<^verbatim>\<open>showResults\<close> once the \<^verbatim>\<open>finally\<close> block has
  run \<^verbatim>\<open>hideLoading\<close> (\<open>shown_after_view_transitions\<close>,
  \<open>shown_analyzeImage_resume\<close>). \<^verbatim>\<open>resetForm\<close> resets the analyze button as
  \<^verbatim>\<open>hideLoading\<close> does, but does not hide the loading card, which the second
  copy of the script does: called after a submit and before the response, it
  leaves the welcome card and the loading card displayed. That call is the
  only way to more than one card (\<open>one_card_run\<close>).
\<close>

theorem resetForm_while_loading_shows_two_cards:
  "shown (run [Change [\<lparr>file_name = ''car.png'', file_type = ''image/png''\<rparr>], Submit, ResetForm]
            page_load) = [welcomeCard, loadingCard] \<and>
   \<not> length (shown (run [Change [\<lparr>file_name = ''car.png'', file_type = ''image/png''\<rparr>],
                            Submit, ResetForm] page_load)) \<le> 1"
  by (simp add: shown_def script_defs page_load_def startsWith_def)

subsection \<open>The held result\<close>

text \<open>
  Claim C9. The \<^verbatim>\<open>try\<close> block reaches its success branch exactly for a response
  that is ok and whose success flag is truthy; then the continuation of
  \<^verbatim>\<open>analyzeImage\<close> stores that data. On every other outcome (a rejected fetch,
  an unreadable body, a non-2xx status, \<^verbatim>\<open>success: false\<close>) it leaves
  \<^verbatim>\<open>currentAnalysisData\<close> as it was. \<^verbatim>\<open>resetForm\<close> sets it to null, and no
  other event changes it. So after any sequence of events it is the data of
  the latest successful response since the latest reset, and a
  \<^verbatim>\<open>downloadReport\<close> after a failed attempt writes the report of the result
  held before.
\<close>

theorem currentAnalysisData_latest_success:
  "(try_block r = Inr d \<longleftrightarrow> r = Response True (Json d) \<and> d_success d) \<and>
   (try_block r = Inr d \<longrightarrow> currentAnalysisData (analyzeImage_resume r s) = Some d) \<and>
   (try_block r = Inl m \<longrightarrow>
      currentAnalysisData (analyzeImage_resume r s) = currentAnalysisData s) \<and>
   currentAnalysisData (resetForm s) = None \<and>
   ((\<forall>r'. e \<noteq> Settled r') \<and> e \<noteq> ResetForm \<longrightarrow>
      currentAnalysisData (step e s) = currentAnalysisData s) \<and>
   currentAnalysisData (run es s) = latest_success es (currentAnalysisData s) \<and>
   (try_block r = Inl m \<and> currentAnalysisData s = Some d0 \<longrightarrow>
      downloads (downloadReport generated stamp (analyzeImage_resume r s)) =
        downloads s @ [\<lparr>dl_name = reportName stamp, dl_type = ''text/plain'',
                         dl_text = reportText generated d0\<rparr>])"
proof -
  have success: "try_block r = Inr d \<Longrightarrow>
      currentAnalysisData (analyzeImage_resume r s) = Some d"
    using currentAnalysisData_step [of "Settled r" s] by simp
  have failure: "try_block r = Inl m \<Longrightarrow>
      currentAnalysisData (analyzeImage_resume r s) = currentAnalysisData s"
    using currentAnalysisData_step [of "Settled r" s] by simp
  have reset: "currentAnalysisData (resetForm s) = None"
    using currentAnalysisData_step [of ResetForm s] by simp
  have others: "(\<forall>r'. e \<noteq> Settled r') \<and> e \<noteq> ResetForm \<Longrightarrow>
      currentAnalysisData (step e s) = currentAnalysisData s"
    by (auto simp add: currentAnalysisData_step split: event.split)
  have kept: "downloads (analyzeImage_resume r s) = downloads s"
    by (simp add: analyzeImage_resume_def catch_block_def view_defs prim_defs split: sum.split)
  have report: "try_block r = Inl m \<and> currentAnalysisData s = Some d0 \<Longrightarrow>
      downloads (downloadReport generated stamp (analyzeImage_resume r s)) =
        downloads s @ [\<lparr>dl_name = reportName stamp, dl_type = ''text/plain'',
                         dl_text = reportText generated d0\<rparr>]"
    using failure by (simp add: downloadReport_def kept)
  show ?thesis
    using success failure reset others report
    by (simp add: try_block_Inr currentAnalysisData_run)
qed

theorem currentAnalysisData_latest_success_witness:
  "try_block (Response True (Json
      \<lparr>d_success = True, d_make = Str ''Honda'', d_model = Str ''Civic'', d_color = Str ''Red'',
        d_damage_summary = Str ''Dent'', d_repair_cost_estimate = Str ''$500'',
        d_error = Undefined, d_detail = Undefined\<rparr>)) =
     Inr \<lparr>d_success = True, d_make = Str ''Honda'', d_model = Str ''Civic'', d_color = Str ''Red'',
        d_damage_summary = Str ''Dent'', d_repair_cost_estimate = Str ''$500'',
        d_error = Undefined, d_detail = Undefined\<rparr> \<and>
   try_block (Rejected ''Failed to fetch'') = Inl ''Failed to fetch'' \<and>
   currentAnalysisData
     (run [Input ''http://x/car.jpg'', Submit,
           Settled (Response True (Json
             \<lparr>d_success = True, d_make = Str ''Honda'', d_model = Str ''Civic'',
               d_color = Str ''Red'', d_damage_summary = Str ''Dent'',
               d_repair_cost_estimate = Str ''$500'', d_error = Undefined,
               d_detail = Undefined\<rparr>)),
           Submit, Settled (Rejected ''Failed to fetch'')] page_load) =
     Some \<lparr>d_success = True, d_make = Str ''Honda'', d_model = Str ''Civic'', d_color = Str ''Red'',
        d_damage_summary = Str ''Dent'', d_repair_cost_estimate = Str ''$500'',
        d_error = Undefined, d_detail = Undefined\<rparr> \<and>
   map dl_name (downloads
     (downloadReport ''11/2/2026, 9:00:00 AM'' ''2026-11-02T09:00:00.000Z''
       (analyzeImage_resume (Rejected ''Failed to fetch'')
         (page_load\<lparr>currentAnalysisData := Some
           \<lparr>d_success = True, d_make = Str ''Honda'', d_model = Str ''Civic'',
             d_color = Str ''Red'', d_damage_summary = Str ''Dent'',
             d_repair_cost_estimate = Str ''$500'', d_error = Undefined,
             d_detail = Undefined\<rparr>\<rparr>)))) =
     [''ClaimCompass_Report_2026-11-02T09-00-00.txt'']"
  using
    currentAnalysisData_latest_success
      [where r = "Rejected ''Failed to fetch''" and m = "''Failed to fetch''"
        and s = "page_load\<lparr>currentAnalysisData := Some
           \<lparr>d_success = True, d_make = Str ''Honda'', d_model = Str ''Civic'',
             d_color = Str ''Red'', d_damage_summary = Str ''Dent'',
             d_repair_cost_estimate = Str ''$500'', d_error = Undefined,
             d_detail = Undefined\<rparr>\<rparr>"
        and ?d0.0 = "\<lparr>d_success = True, d_make = Str ''Honda'', d_model = Str ''Civic'',
             d_color = Str ''Red'', d_damage_summary = Str ''Dent'',
             d_repair_cost_estimate = Str ''$500'', d_error = Undefined,
             d_detail = Undefined\<rparr>"
        and generated = "''11/2/2026, 9:00:00 AM''" and stamp = "''2026-11-02T09:00:00.000Z''"
        and e = Submit
        and es = "[Input ''http://x/car.jpg'', Submit,
           Settled (Response True (Json
             \<lparr>d_success = True, d_make = Str ''Honda'', d_model = Str ''Civic'',
               d_color = Str ''Red'', d_damage_summary = Str ''Dent'',
               d_repair_cost_estimate = Str ''$500'', d_error = Undefined,
               d_detail = Undefined\<rparr>)),
           Submit, Settled (Rejected ''Failed to fetch'')]"]
    currentAnalysisData_latest_success
      [where s = page_load
        and es = "[Input ''http://x/car.jpg'', Submit,
           Settled (Response True (Json
             \<lparr>d_success = True, d_make = Str ''Honda'', d_model = Str ''Civic'',
               d_color = Str ''Red'', d_damage_summary = Str ''Dent'',
               d_repair_cost_estimate = Str ''$500'', d_error = Undefined,
               d_detail = Undefined\<rparr>)),
           Submit, Settled (Rejected ''Failed to fetch'')]"]
  by (simp add: page_load_def reportName_def)

subsection \<open>Errors leave the loading state\<close>

text \<open>
  Claim C10. \<^verbatim>\<open>showError\<close> ends with \<^verbatim>\<open>hideLoading\<close>: whatever the page and the
  message, afterwards the loading card is hidden and the analyze button is
  enabled with the label ``Analyze Damage''. And no sequence of events, from
  the loaded page or from any page where it holds, reaches a page that
  displays the error card while the loading card is visible, the button
  disabled, or its label not the idle one.
\<close>

theorem showError_leaves_loading:
  "showError message s = hideLoading (showError message s) \<and>
   idle_controls (showError message s) \<and>
   ((display s errorCard \<noteq> ''none'' \<longrightarrow> idle_controls s) \<longrightarrow>
    (display (run es s) errorCard \<noteq> ''none'' \<longrightarrow> idle_controls (run es s))) \<and>
   (display (run es page_load) errorCard \<noteq> ''none'' \<longrightarrow> idle_controls (run es page_load))"
proof -
  have again: "showError message s = hideLoading (showError message s)"
    by (simp add: view_defs prim_defs)
  have idle: "idle_controls (showError message s)"
    by (simp add: idle_controls_def view_defs prim_defs)
  have "display page_load errorCard \<noteq> ''none'' \<longrightarrow> idle_controls page_load"
    by (simp add: page_load_def)
  then have loaded:
    "display (run es page_load) errorCard \<noteq> ''none'' \<longrightarrow> idle_controls (run es page_load)"
    by (rule error_idle_run)
  show ?thesis
    using again idle loaded error_idle_run [of s es] by blast
qed

theorem showError_leaves_loading_witness:
  "display (run [Input ''http://x/car.jpg'', Submit, Offline] page_load) errorCard \<noteq> ''none'' \<and>
   idle_controls (run [Input ''http://x/car.jpg'', Submit, Offline] page_load)"
  using showError_leaves_loading [of "[]" page_load "[Input ''http://x/car.jpg'', Submit, Offline]"]
  by (simp add: script_defs page_load_def)

end
